theory Spec2Isabelle
  imports Main "HOL-Library.Word"
begin

unbundle bit_operations_syntax

section \<open>efiHexRays.cpp: data model\<close>

text \<open>
  The file \<^verbatim>\<open>efiHexRays.cpp\<close> is written against the IDA / Hex-Rays SDK. The SDK is not
  part of the repository, so every SDK call of the source is a parameter of the model:
  a field of the record \<open>typedb\<close> (queries on a \<^verbatim>\<open>tinfo_t\<close>) or of the record
  \<open>hexrays\<close> (functions, decompilation, the ctree visitor). The type \<open>'ti\<close> stands for
  \<^verbatim>\<open>tinfo_t\<close>.

  Machine integers: \<^verbatim>\<open>unsigned int\<close> is \<open>32 word\<close>, \<^verbatim>\<open>ea_t\<close> and the SDK's
  \<^verbatim>\<open>uint64\<close> are \<open>64 word\<close>, \<^verbatim>\<open>type_t\<close> (\<^verbatim>\<open>uchar\<close>) is \<open>8 word\<close>. A C \<^verbatim>\<open>int\<close>
  whose value stays inside its range is an \<open>int\<close>; the one place where a value is
  converted into an \<^verbatim>\<open>int\<close> from outside (\<^verbatim>\<open>int iDepth = ptrDepth + 1\<close>) is
  written with \<open>sint\<close>.
\<close>

type_synonym ea_t = "64 word"
type_synonym type_t = "8 word"
type_synonym uint = "32 word"

text \<open>
  \<^verbatim>\<open>udt_member_t\<close> of the SDK: \<^verbatim>\<open>offset\<close> is a \<^verbatim>\<open>uint64\<close> holding the member's
  offset in bits (the source shifts it by \<^verbatim>\<open>3ULL\<close> and narrows the result with
  \<^verbatim>\<open>static_cast<unsigned int>\<close>).
\<close>

record udt_member_t =
  udm_offset :: "64 word"
  udm_name :: string

text \<open>\<^verbatim>\<open>array_type_data_t\<close>: the element type and the number of elements.\<close>

record 'ti array_type_data_t =
  elem_type :: 'ti
  nelems :: uint

text \<open>
  The queries of the SDK on a type. \<open>get_udt_details\<close> and \<open>get_array_details\<close>
  return \<open>None\<close> where the SDK call returns \<^verbatim>\<open>false\<close>; \<open>find_udt_member\<close> returns the
  index of the member found, or a negative number.
\<close>

record 'ti typedb =
  get_udt_details :: "'ti \<Rightarrow> udt_member_t list option"
  find_udt_member :: "'ti \<Rightarrow> string \<Rightarrow> int"
  is_array :: "'ti \<Rightarrow> bool"
  get_array_details :: "'ti \<Rightarrow> 'ti array_type_data_t option"
  get_realtype :: "'ti \<Rightarrow> type_t"
  is_typeid_last :: "type_t \<Rightarrow> bool"
  is_decl_last :: "'ti \<Rightarrow> bool"
  is_ptr :: "'ti \<Rightarrow> bool"
  remove_pointer :: "'ti \<Rightarrow> 'ti"

text \<open>
  Every call of \<^verbatim>\<open>msg\<close> in the source is one value of \<open>msg\<close>, carrying the arguments
  of the format string. Where the source prints the name of a type
  (\<^verbatim>\<open>get_type_name\<close>), the message carries the type whose name is asked for.
\<close>

datatype 'ti msg =
    E_udt 'ti
      \<comment> \<open>\<^verbatim>\<open>[E] Could not retrieve udt_type_data_t for %s\<close>\<close>
  | E_member 'ti string
      \<comment> \<open>\<^verbatim>\<open>[E] Could not find UDT member %s::%s\<close>\<close>
  | E_lvar ea_t string
      \<comment> \<open>\<^verbatim>\<open>[E] %a: could not modify lvar type for %s\<close>\<close>
  | E_array 'ti
      \<comment> \<open>\<^verbatim>\<open>[E] %s: can't get array details, despite being an array\<close>\<close>
  | I_IsPodArray int 'ti bool bool
      \<comment> \<open>\<^verbatim>\<open>[I] IsPodArray[%d]: elem_type = %s, b1 = %d, b2 = %d\<close>\<close>

section \<open>OffsetOf\<close>

text \<open>
  \<^verbatim>\<open>bool OffsetOf(tinfo_t tif, const char *name, unsigned int *offset)\<close>.
  The model takes the value stored at \<^verbatim>\<open>*offset\<close> before the call and returns the
  function's result, the value stored at \<^verbatim>\<open>*offset\<close> after the call and the messages
  printed. \<^verbatim>\<open>udt.at(fIdx)\<close> is an unchecked read of the vector: for an index past its
  end the behaviour is undefined, which is the value \<open>None\<close>.
\<close>

definition OffsetOf ::
  "'ti typedb \<Rightarrow> 'ti \<Rightarrow> string \<Rightarrow> uint \<Rightarrow> (bool \<times> uint \<times> 'ti msg list) option" where
  "OffsetOf db tif name offset =
     (case get_udt_details db tif of
        None \<Rightarrow> Some (False, offset, [E_udt tif])
      | Some udt \<Rightarrow>
          (let fIdx = find_udt_member db tif name in
           if fIdx < 0 then Some (False, offset, [E_member tif name])
           else if nat fIdx < length udt
             then Some (True, ucast (drop_bit 3 (udm_offset (udt ! nat fIdx))), [])
             else None))"

section \<open>SetHexRaysVariableType\<close>

text \<open>
  \<^verbatim>\<open>lvar_t\<close> (only the name is read by the source) and \<^verbatim>\<open>lvar_saved_info_t\<close> with
  the two fields the source assigns.
\<close>

record lvar_t =
  lvar_name :: string

record 'ti lvar_saved_info_t =
  ll :: lvar_t
  lsi_type :: 'ti

text \<open>The \<^verbatim>\<open>MLI_*\<close> selectors of \<^verbatim>\<open>modify_user_lvar_info\<close>.\<close>

datatype mli = MLI_NAME | MLI_TYPE | MLI_CMT | MLI_SET_FLAGS | MLI_CLR_FLAGS

text \<open>
  \<^verbatim>\<open>bool SetHexRaysVariableType(ea_t funcEa, lvar_t &ll, tinfo_t tif)\<close>.
  \<^verbatim>\<open>modify_user_lvar_info\<close> is the SDK's mutation of the saved variable information:
  a parameter that takes the store \<open>'st\<close> and returns its answer and the new store.
\<close>

definition SetHexRaysVariableType ::
  "(ea_t \<Rightarrow> mli \<Rightarrow> 'ti lvar_saved_info_t \<Rightarrow> 'st \<Rightarrow> bool \<times> 'st) \<Rightarrow>
   ea_t \<Rightarrow> lvar_t \<Rightarrow> 'ti \<Rightarrow> 'st \<Rightarrow> bool \<times> 'st \<times> 'ti msg list" where
  "SetHexRaysVariableType modify_user_lvar_info funcEa lv tif st =
     (let lsi = \<lparr>ll = lv, lsi_type = tif\<rparr>;
          (ok, st') = modify_user_lvar_info funcEa MLI_TYPE lsi st
      in if \<not> ok then (False, st', [E_lvar funcEa (lvar_name lv)])
         else (True, st', []))"

section \<open>IsPODArray\<close>

text \<open>Prepends a message to the messages of the rest of the run.\<close>

fun emit :: "'ti msg \<Rightarrow> bool \<times> 'ti msg list \<Rightarrow> bool \<times> 'ti msg list" where
  "emit m (r, ms) = (r, m # ms)"

text \<open>
  The \<^verbatim>\<open>while (iDepth > 0)\<close> loop of \<^verbatim>\<open>IsPODArray\<close>, from the state
  (\<^verbatim>\<open>et\<close>, \<^verbatim>\<open>iDepth\<close>). It returns the function's result and the messages printed,
  one \<open>I_IsPodArray\<close> per execution of the body.
\<close>

function IsPODArray_loop :: "'ti typedb \<Rightarrow> 'ti \<Rightarrow> int \<Rightarrow> bool \<times> 'ti msg list" where
  "IsPODArray_loop db et iDepth =
     (if iDepth > 0 then
        (let b1 = is_typeid_last db (get_realtype db et);
             b2 = is_decl_last db et;
             m = I_IsPodArray iDepth et b1 b2
         in if b1 \<or> b2 then (True, [m])
            else if iDepth - 1 > 0 then
              (if is_ptr db et
               then emit m (IsPODArray_loop db (remove_pointer db et) (iDepth - 1))
               else (False, [m]))
            else emit m (IsPODArray_loop db et (iDepth - 1)))
      else (False, []))"
  by pat_completeness auto
termination
  by (relation "measure (\<lambda>(db, et, iDepth). nat iDepth)") auto

text \<open>
  \<^verbatim>\<open>bool IsPODArray(tinfo_t tif, unsigned int ptrDepth = 0)\<close>.
  \<^verbatim>\<open>ptrDepth + 1\<close> is computed in \<^verbatim>\<open>unsigned int\<close> (it wraps to 0 at
  \<^verbatim>\<open>0xFFFFFFFF\<close>) and then stored in the \<^verbatim>\<open>int iDepth\<close>, read as two's complement.
\<close>

definition IsPODArray :: "'ti typedb \<Rightarrow> 'ti \<Rightarrow> uint \<Rightarrow> bool \<times> 'ti msg list" where
  "IsPODArray db tif ptrDepth =
     (if \<not> is_array db tif then (False, [])
      else (case get_array_details db tif of
              None \<Rightarrow> (False, [E_array tif])
            | Some atd \<Rightarrow> IsPODArray_loop db (elem_type atd) (sint (ptrDepth + 1))))"

section \<open>applyAllTypesForInterfaces\<close>

text \<open>
  Modelled from the spec: the declaration of \<^verbatim>\<open>struct TargetFunctionPointer\<close> is in
  \<^verbatim>\<open>efiHexRays.h\<close>, which is not among the sources. The spec's CallDescriptor gives
  its five fields in the order of the aggregate initialisers of the source: name, byte
  offset in the service table, number of arguments, index of the GUID argument, index
  of the interface argument, the last four unsigned 32-bit.
\<close>

record TargetFunctionPointer =
  fn_name :: string
  tableOffset :: uint
  argCount :: uint
  guidArgIndex :: uint
  interfaceArgIndex :: uint

text \<open>The two arrays of descriptors, as the source initialises them.\<close>

definition BootServicesFunctions :: "TargetFunctionPointer list" where
  "BootServicesFunctions =
     [\<lparr>fn_name = ''HandleProtocol'', tableOffset = 0x98, argCount = 3,
        guidArgIndex = 1, interfaceArgIndex = 2\<rparr>,
      \<lparr>fn_name = ''LocateProtocol'', tableOffset = 0x140, argCount = 3,
        guidArgIndex = 0, interfaceArgIndex = 2\<rparr>,
      \<lparr>fn_name = ''OpenProtocol'', tableOffset = 0x118, argCount = 6,
        guidArgIndex = 1, interfaceArgIndex = 2\<rparr>]"

definition SmmServicesFunctions :: "TargetFunctionPointer list" where
  "SmmServicesFunctions =
     [\<lparr>fn_name = ''SmmHandleProtocol'', tableOffset = 0xb8, argCount = 3,
        guidArgIndex = 1, interfaceArgIndex = 2\<rparr>,
      \<lparr>fn_name = ''SmmLocateProtocol'', tableOffset = 0xd0, argCount = 3,
        guidArgIndex = 0, interfaceArgIndex = 2\<rparr>]"

text \<open>
  Modelled from the spec: \<^verbatim>\<open>ServiceDescriptor\<close> and \<^verbatim>\<open>ServiceDescriptorMap\<close> are
  classes of \<^verbatim>\<open>efiHexRays.h\<close>, not among the sources. The spec's ServiceTable is a
  name with an ordered sequence of descriptors, \<open>Initialize\<close> populates it from a
  fixed array (here: from its first \<open>num\<close> elements, the count the source passes), the
  registry maps a table's name to the table, and \<open>Register\<close> inserts a table under
  its name.
\<close>

record ServiceDescriptor =
  table_name :: string
  entries :: "TargetFunctionPointer list"

definition Initialize ::
  "string \<Rightarrow> TargetFunctionPointer list \<Rightarrow> nat \<Rightarrow> ServiceDescriptor" where
  "Initialize name targets num = \<lparr>table_name = name, entries = take num targets\<rparr>"

type_synonym ServiceDescriptorMap = "string \<rightharpoonup> ServiceDescriptor"

definition Register :: "ServiceDescriptorMap \<Rightarrow> ServiceDescriptor \<Rightarrow> ServiceDescriptorMap" where
  "Register m sd = m(table_name sd \<mapsto> sd)"

text \<open>
  One element of \<^verbatim>\<open>std::vector<json> protocols\<close>: the source reads its keys
  \<^verbatim>\<open>"ea"\<close> (converted to \<^verbatim>\<open>ea_t\<close> by \<^verbatim>\<open>get_func\<close>) and \<^verbatim>\<open>"service"\<close>. The model
  covers the records that have both, the first a number: the spec's ProtocolUsageRecord.
\<close>

record protocol =
  ea :: ea_t
  service :: string

text \<open>
  Modelled from the spec: \<^verbatim>\<open>GUIDRetyper\<close> is a class of \<^verbatim>\<open>efiHexRays.h\<close>, not among
  the sources. The spec's RetyperContext holds the service tables, the usage records
  and the current code and function address, and is changed only by
  \<open>SetProtocols\<close>, \<open>SetCodeEa\<close> and \<open>SetFuncEa\<close>. The two addresses are \<open>None\<close>
  until they are set.
\<close>

record GUIDRetyper =
  services :: ServiceDescriptorMap
  protocols :: "protocol list"
  codeEa :: "ea_t option"
  funcEa :: "ea_t option"

definition new_GUIDRetyper :: "ServiceDescriptorMap \<Rightarrow> GUIDRetyper" where
  "new_GUIDRetyper m = \<lparr>services = m, protocols = [], codeEa = None, funcEa = None\<rparr>"

definition SetProtocols :: "protocol list \<Rightarrow> GUIDRetyper \<Rightarrow> GUIDRetyper" where
  "SetProtocols ps r = r\<lparr>protocols := ps\<rparr>"

definition SetCodeEa :: "ea_t \<Rightarrow> GUIDRetyper \<Rightarrow> GUIDRetyper" where
  "SetCodeEa a r = r\<lparr>codeEa := Some a\<rparr>"

definition SetFuncEa :: "ea_t \<Rightarrow> GUIDRetyper \<Rightarrow> GUIDRetyper" where
  "SetFuncEa a r = r\<lparr>funcEa := Some a\<rparr>"

text \<open>\<^verbatim>\<open>func_t\<close>: the source reads \<^verbatim>\<open>start_ea\<close>.\<close>

record func_t =
  start_ea :: ea_t

text \<open>
  The host of the driver, over its state \<open>'st\<close> (the database with the saved
  variable types) and the type \<open>'c\<close> of a decompiled function:
  \<open>get_func\<close> is \<open>None\<close> for \<^verbatim>\<open>nullptr\<close>; \<open>decompile\<close> returns \<open>None\<close> for a
  null \<^verbatim>\<open>cfuncptr_t\<close>, and the state it leaves; \<open>apply_to\<close> is the traversal of
  the function's body by a retyper (\<^verbatim>\<open>retyper.apply_to(&cfunc->body, nullptr)\<close>),
  which is where variables are retyped.
\<close>

record ('c, 'st) hexrays =
  get_func :: "ea_t \<Rightarrow> 'st \<Rightarrow> func_t option"
  decompile :: "func_t \<Rightarrow> 'st \<Rightarrow> 'c option \<times> 'st"
  apply_to :: "GUIDRetyper \<Rightarrow> 'c \<Rightarrow> 'st \<Rightarrow> 'st"

text \<open>
  The body of the loop \<^verbatim>\<open>for (auto protocol : protocols)\<close>, on the state of the two
  retypers and the host; \<^verbatim>\<open>continue\<close> ends the body with the state reached.
\<close>

definition handle_protocol ::
  "('c, 'st) hexrays \<Rightarrow> protocol \<Rightarrow> GUIDRetyper \<times> GUIDRetyper \<times> 'st \<Rightarrow>
   GUIDRetyper \<times> GUIDRetyper \<times> 'st" where
  "handle_protocol h p s =
     (case s of (retyperBs, retyperSmm, st) \<Rightarrow>
        (let code_addr = ea p in
         case get_func h code_addr st of
           None \<Rightarrow> (retyperBs, retyperSmm, st)
         | Some f \<Rightarrow>
             (let retyperBs' = SetFuncEa (start_ea f) (SetCodeEa code_addr retyperBs);
                  retyperSmm' = SetFuncEa (start_ea f) (SetCodeEa code_addr retyperSmm)
              in case decompile h f st of
                   (None, st') \<Rightarrow> (retyperBs', retyperSmm', st')
                 | (Some cfunc, st') \<Rightarrow>
                     (retyperBs', retyperSmm',
                      apply_to h retyperSmm' cfunc (apply_to h retyperBs' cfunc st')))))"

text \<open>The loop over the records, first to last.\<close>

primrec handle_protocols ::
  "('c, 'st) hexrays \<Rightarrow> protocol list \<Rightarrow> GUIDRetyper \<times> GUIDRetyper \<times> 'st \<Rightarrow>
   GUIDRetyper \<times> GUIDRetyper \<times> 'st" where
  "handle_protocols h [] s = s"
| "handle_protocols h (p # ps) s = handle_protocols h ps (handle_protocol h p s)"

text \<open>The two service tables and the two registries the driver builds.\<close>

definition sdBs :: ServiceDescriptor where
  "sdBs = Initialize ''EFI_BOOT_SERVICES'' BootServicesFunctions 3"

definition sdSmm :: ServiceDescriptor where
  "sdSmm = Initialize ''_EFI_SMM_SYSTEM_TABLE2'' SmmServicesFunctions 2"

definition mBs :: ServiceDescriptorMap where
  "mBs = Register Map.empty sdBs"

definition mSmm :: ServiceDescriptorMap where
  "mSmm = Register Map.empty sdSmm"

text \<open>
  \<^verbatim>\<open>void applyAllTypesForInterfaces(std::vector<json> protocols)\<close>: the model
  returns the two retypers and the host's state as the function leaves them.
\<close>

definition applyAllTypesForInterfaces ::
  "('c, 'st) hexrays \<Rightarrow> protocol list \<Rightarrow> 'st \<Rightarrow> GUIDRetyper \<times> GUIDRetyper \<times> 'st" where
  "applyAllTypesForInterfaces h ps st =
     (let retyperBs = SetProtocols ps (new_GUIDRetyper mBs);
          retyperSmm = SetProtocols ps (new_GUIDRetyper mSmm)
      in handle_protocols h ps (retyperBs, retyperSmm, st))"

section \<open>Vocabulary of the properties of IsPODArray\<close>

text \<open>
  The test of one execution of the loop's body, \<^verbatim>\<open>b1 || b2\<close>: the spec's
  ``primitive-like''.
\<close>

definition primitive_like :: "'ti typedb \<Rightarrow> 'ti \<Rightarrow> bool" where
  "primitive_like db t = (is_typeid_last db (get_realtype db t) \<or> is_decl_last db t)"

text \<open>The message one execution of the loop's body prints for the type \<open>t\<close>.\<close>

definition check_msg :: "'ti typedb \<Rightarrow> int \<Rightarrow> 'ti \<Rightarrow> 'ti msg" where
  "check_msg db iDepth t =
     I_IsPodArray iDepth t (is_typeid_last db (get_realtype db t)) (is_decl_last db t)"

text \<open>The type \<open>et\<close> after \<open>j\<close> applications of \<^verbatim>\<open>remove_pointer\<close>.\<close>

definition stripped :: "'ti typedb \<Rightarrow> 'ti \<Rightarrow> nat \<Rightarrow> 'ti" where
  "stripped db et j = (remove_pointer db ^^ j) et"

section \<open>A type database and a host for evaluation\<close>

text \<open>
  A small stand-in for the SDK's type system, used to run the functions on concrete
  types: \<open>Leaf b1 b2\<close> is a type that is neither a pointer nor an array, on which
  the classification by real type answers \<open>b1\<close> and the one by declared type
  \<open>b2\<close> (an \<^verbatim>\<open>int\<close> is \<open>Leaf True True\<close>, a structure without layout
  \<open>Leaf False False\<close>); \<open>Udt\<close> is a structure with its members; \<open>Arr\<close> an array
  with element type and count; \<open>BadArr\<close> an array whose details cannot be read.
\<close>

datatype tinfo =
    Leaf bool bool
  | Udt "udt_member_t list"
  | Ptr tinfo
  | Arr tinfo uint
  | BadArr

fun member_index :: "udt_member_t list \<Rightarrow> string \<Rightarrow> int" where
  "member_index [] n = - 1"
| "member_index (m # ms) n =
     (if udm_name m = n then 0
      else (let i = member_index ms n in if i < 0 then - 1 else i + 1))"

fun tinfo_udt :: "tinfo \<Rightarrow> udt_member_t list option" where
  "tinfo_udt (Udt ms) = Some ms"
| "tinfo_udt _ = None"

fun tinfo_find :: "tinfo \<Rightarrow> string \<Rightarrow> int" where
  "tinfo_find (Udt ms) n = member_index ms n"
| "tinfo_find _ n = - 1"

fun tinfo_is_array :: "tinfo \<Rightarrow> bool" where
  "tinfo_is_array (Arr t n) = True"
| "tinfo_is_array BadArr = True"
| "tinfo_is_array _ = False"

fun tinfo_array :: "tinfo \<Rightarrow> tinfo array_type_data_t option" where
  "tinfo_array (Arr t n) = Some \<lparr>elem_type = t, nelems = n\<rparr>"
| "tinfo_array _ = None"

fun tinfo_realtype :: "tinfo \<Rightarrow> type_t" where
  "tinfo_realtype (Leaf b1 b2) = (if b1 then 0x07 else 0x0D)"
| "tinfo_realtype (Udt ms) = 0x0D"
| "tinfo_realtype (Ptr t) = 0x0A"
| "tinfo_realtype (Arr t n) = 0x0B"
| "tinfo_realtype BadArr = 0x0B"

fun tinfo_decl_last :: "tinfo \<Rightarrow> bool" where
  "tinfo_decl_last (Leaf b1 b2) = b2"
| "tinfo_decl_last _ = False"

fun tinfo_is_ptr :: "tinfo \<Rightarrow> bool" where
  "tinfo_is_ptr (Ptr t) = True"
| "tinfo_is_ptr _ = False"

fun tinfo_remove_pointer :: "tinfo \<Rightarrow> tinfo" where
  "tinfo_remove_pointer (Ptr t) = t"
| "tinfo_remove_pointer t = t"

definition tinfo_db :: "tinfo typedb" where
  "tinfo_db =
     \<lparr>get_udt_details = tinfo_udt, find_udt_member = tinfo_find,
      is_array = tinfo_is_array, get_array_details = tinfo_array,
      get_realtype = tinfo_realtype, is_typeid_last = (\<lambda>t. t \<le> 0x09),
      is_decl_last = tinfo_decl_last, is_ptr = tinfo_is_ptr,
      remove_pointer = tinfo_remove_pointer\<rparr>"

text \<open>
  A host for running the driver: the address \<open>0x2010\<close> lies in a function at
  \<open>0x2000\<close> that does not decompile, \<open>0x3010\<close> in a function at \<open>0x3000\<close> that
  does, and no other address lies in a function. A decompiled function is represented
  by its start address. The state is the list of the traversals run so far: for each,
  the names of the tables of the retyper, its current code address and the function
  traversed.
\<close>

definition retyper_tables :: "GUIDRetyper \<Rightarrow> string list" where
  "retyper_tables r =
     filter (\<lambda>n. services r n \<noteq> None) [''EFI_BOOT_SERVICES'', ''_EFI_SMM_SYSTEM_TABLE2'']"

definition sample_host :: "(ea_t, (string list \<times> ea_t option \<times> ea_t) list) hexrays" where
  "sample_host =
     \<lparr>get_func = (\<lambda>a st. if a = 0x2010 then Some \<lparr>start_ea = 0x2000\<rparr>
                          else if a = 0x3010 then Some \<lparr>start_ea = 0x3000\<rparr> else None),
      decompile = (\<lambda>f st. if start_ea f = 0x3000 then (Some (start_ea f), st) else (None, st)),
      apply_to = (\<lambda>r c st. st @ [(retyper_tables r, codeEa r, c)])\<rparr>"

section \<open>Properties of OffsetOf\<close>

lemma unat_ucast_drop3:
  "unat (ucast (drop_bit 3 (w :: 64 word)) :: 32 word) = unat w div 8 mod 2 ^ 32"
proof -
  have "unat (ucast (drop_bit 3 w) :: 32 word) = unat (drop_bit 3 w) mod 2 ^ 32"
    unfolding unsigned_ucast_eq take_bit_eq_mod by simp
  also have "unat (drop_bit 3 w) = unat w div 2 ^ 3"
    unfolding unat_drop_bit_eq by (simp only: drop_bit_eq_div)
  finally show ?thesis by simp
qed

text \<open>
  Claim C2, as stated: for every type whose layout is retrievable and that has a member
  with the given name, \<open>OffsetOf\<close> succeeds and returns the member's recorded bit
  offset divided by 8, exactly.

  The claim fails for a member whose bit offset is \<open>2 ^ 35\<close> (byte offset
  \<open>2 ^ 32\<close>): the source narrows the shifted 64-bit offset to \<^verbatim>\<open>unsigned int\<close>, and
  the call stores 0.
\<close>

theorem OffsetOf_truncates:
  "OffsetOf tinfo_db (Udt [\<lparr>udm_offset = 0x800000000, udm_name = ''Field''\<rparr>]) ''Field'' 7
     = Some (True, 0, []) \<and>
   unat (0 :: uint) \<noteq> unat (0x800000000 :: 64 word) div 8"
  by (simp add: OffsetOf_def tinfo_db_def)

text \<open>
  Claim C2, amended: when the layout of the type is retrievable (\<open>get_udt_details\<close>
  answers with the members \<open>udt\<close>) and the type has a member with the given name
  (\<open>find_udt_member\<close> answers with an index \<open>i\<close> of \<open>udt\<close>), \<open>OffsetOf\<close>
  succeeds, prints nothing and stores the low 32 bits of that member's bit offset
  shifted right by 3: the offset divided by 8, modulo \<open>2 ^ 32\<close>. The result is the
  offset divided by 8 exactly whenever the bit offset is below \<open>2 ^ 35\<close>.
\<close>

theorem OffsetOf_found:
  assumes "get_udt_details db tif = Some udt"
    and "find_udt_member db tif name = i" and "0 \<le> i" and "nat i < length udt"
  shows "\<exists>r. OffsetOf db tif name offset = Some (True, r, []) \<and>
           r = ucast (drop_bit 3 (udm_offset (udt ! nat i))) \<and>
           unat r = unat (udm_offset (udt ! nat i)) div 8 mod 2 ^ 32 \<and>
           (unat (udm_offset (udt ! nat i)) < 2 ^ 35 \<longrightarrow>
              unat r = unat (udm_offset (udt ! nat i)) div 8)"
proof -
  let ?w = "udm_offset (udt ! nat i)"
  let ?r = "ucast (drop_bit 3 ?w) :: 32 word"
  have run: "OffsetOf db tif name offset = Some (True, ?r, [])"
    using assms by (simp add: OffsetOf_def)
  have trunc: "unat ?r = unat ?w div 8 mod 2 ^ 32"
    by (rule unat_ucast_drop3)
  have exact: "unat ?r = unat ?w div 8" if "unat ?w < 2 ^ 35"
  proof -
    from that have "unat ?w div 8 < 2 ^ 32" by simp
    then show ?thesis by (simp add: trunc)
  qed
  from run trunc exact show ?thesis by blast
qed

theorem OffsetOf_found_witness:
  "get_udt_details tinfo_db (Udt [\<lparr>udm_offset = 0, udm_name = ''Hdr''\<rparr>,
                                  \<lparr>udm_offset = 0x4C0, udm_name = ''HandleProtocol''\<rparr>])
     = Some [\<lparr>udm_offset = 0, udm_name = ''Hdr''\<rparr>,
             \<lparr>udm_offset = 0x4C0, udm_name = ''HandleProtocol''\<rparr>] \<and>
   find_udt_member tinfo_db (Udt [\<lparr>udm_offset = 0, udm_name = ''Hdr''\<rparr>,
                                  \<lparr>udm_offset = 0x4C0, udm_name = ''HandleProtocol''\<rparr>])
     ''HandleProtocol'' = 1 \<and>
   OffsetOf tinfo_db (Udt [\<lparr>udm_offset = 0, udm_name = ''Hdr''\<rparr>,
                           \<lparr>udm_offset = 0x4C0, udm_name = ''HandleProtocol''\<rparr>])
     ''HandleProtocol'' 7 = Some (True, 0x98, [])"
  using OffsetOf_found [of tinfo_db
      "Udt [\<lparr>udm_offset = 0, udm_name = ''Hdr''\<rparr>,
            \<lparr>udm_offset = 0x4C0, udm_name = ''HandleProtocol''\<rparr>]"
      "[\<lparr>udm_offset = 0, udm_name = ''Hdr''\<rparr>,
        \<lparr>udm_offset = 0x4C0, udm_name = ''HandleProtocol''\<rparr>]"
      "''HandleProtocol''" 1 7]
  by (simp add: tinfo_db_def)

text \<open>
  Claim C10: when \<open>OffsetOf\<close> fails, the location \<^verbatim>\<open>*offset\<close> is not written. The
  two failing paths (layout unavailable, member not found) return \<^verbatim>\<open>false\<close> with the
  value the location held before the call, and every run that returns \<^verbatim>\<open>false\<close>
  leaves that value in place.
\<close>

theorem OffsetOf_failure_keeps_offset:
  "(get_udt_details db tif = None \<longrightarrow>
      OffsetOf db tif name offset = Some (False, offset, [E_udt tif])) \<and>
   (get_udt_details db tif = Some udt \<and> find_udt_member db tif name < 0 \<longrightarrow>
      OffsetOf db tif name offset = Some (False, offset, [E_member tif name])) \<and>
   (OffsetOf db tif name offset = Some (False, offset', ms) \<longrightarrow> offset' = offset)"
  by (auto simp: OffsetOf_def Let_def split: option.splits if_splits)

theorem OffsetOf_failure_keeps_offset_witness:
  "get_udt_details tinfo_db (Leaf True True) = None \<and>
   OffsetOf tinfo_db (Leaf True True) ''Field'' 7 = Some (False, 7, [E_udt (Leaf True True)]) \<and>
   get_udt_details tinfo_db (Udt [\<lparr>udm_offset = 64, udm_name = ''Other''\<rparr>])
     = Some [\<lparr>udm_offset = 64, udm_name = ''Other''\<rparr>] \<and>
   find_udt_member tinfo_db (Udt [\<lparr>udm_offset = 64, udm_name = ''Other''\<rparr>]) ''Field'' < 0 \<and>
   OffsetOf tinfo_db (Udt [\<lparr>udm_offset = 64, udm_name = ''Other''\<rparr>]) ''Field'' 7
     = Some (False, 7, [E_member (Udt [\<lparr>udm_offset = 64, udm_name = ''Other''\<rparr>]) ''Field''])"
  using OffsetOf_failure_keeps_offset [of tinfo_db "Leaf True True" "''Field''" 7 "[]" 7 "[]"]
    OffsetOf_failure_keeps_offset [of tinfo_db "Udt [\<lparr>udm_offset = 64, udm_name = ''Other''\<rparr>]"
      "''Field''" 7 "[\<lparr>udm_offset = 64, udm_name = ''Other''\<rparr>]" 7 "[]"]
  by (simp add: tinfo_db_def)

section \<open>Properties of SetHexRaysVariableType\<close>

text \<open>
  Claim C6: \<open>SetHexRaysVariableType\<close> returns what the store's
  \<^verbatim>\<open>modify_user_lvar_info\<close> answers to the request to set the variable's type: it
  fails exactly when the store rejects the mutation and succeeds whenever the store
  accepts it. On failure it reports one error that carries the function's address and
  the variable's name, on success it reports nothing; the store is left as the
  mutation left it.
\<close>

theorem SetHexRaysVariableType_fails_iff:
  "fst (SetHexRaysVariableType modify fea lv tif st)
     = fst (modify fea MLI_TYPE \<lparr>ll = lv, lsi_type = tif\<rparr> st) \<and>
   fst (snd (SetHexRaysVariableType modify fea lv tif st))
     = snd (modify fea MLI_TYPE \<lparr>ll = lv, lsi_type = tif\<rparr> st) \<and>
   snd (snd (SetHexRaysVariableType modify fea lv tif st))
     = (if fst (modify fea MLI_TYPE \<lparr>ll = lv, lsi_type = tif\<rparr> st) then []
        else [E_lvar fea (lvar_name lv)])"
  by (simp add: SetHexRaysVariableType_def Let_def split: prod.splits)

section \<open>Properties of IsPODArray\<close>

declare IsPODArray_loop.simps [simp del]

text \<open>
  Claim C7: for a type that is not an array, \<open>IsPODArray\<close> returns \<^verbatim>\<open>false\<close> for
  every pointer depth, and no element type is inspected: no check is printed.
\<close>

theorem IsPODArray_not_array:
  "\<not> is_array db tif \<Longrightarrow> IsPODArray db tif ptrDepth = (False, [])"
  by (simp add: IsPODArray_def)

theorem IsPODArray_not_array_witness:
  "\<not> is_array tinfo_db (Leaf True True) \<and>
   IsPODArray tinfo_db (Leaf True True) 5 = (False, [])"
  using IsPODArray_not_array [of tinfo_db "Leaf True True" 5]
  by (simp add: tinfo_db_def)

text \<open>
  Claim C9: for an array type whose array details cannot be retrieved,
  \<open>IsPODArray\<close> returns \<^verbatim>\<open>false\<close>; it reports the failure and checks no element
  type.
\<close>

theorem IsPODArray_no_details:
  "is_array db tif \<Longrightarrow> get_array_details db tif = None \<Longrightarrow>
   IsPODArray db tif ptrDepth = (False, [E_array tif])"
  by (simp add: IsPODArray_def)

theorem IsPODArray_no_details_witness:
  "is_array tinfo_db BadArr \<and> get_array_details tinfo_db BadArr = None \<and>
   IsPODArray tinfo_db BadArr 1 = (False, [E_array BadArr])"
  using IsPODArray_no_details [of tinfo_db BadArr 1]
  by (simp add: tinfo_db_def)

subsection \<open>One execution of the loop's body\<close>

lemma loop_primitive:
  "0 < iDepth \<Longrightarrow> primitive_like db et \<Longrightarrow>
   IsPODArray_loop db et iDepth = (True, [check_msg db iDepth et])"
  by (subst IsPODArray_loop.simps) (simp add: primitive_like_def check_msg_def)

lemma loop_not_positive:
  "iDepth \<le> 0 \<Longrightarrow> IsPODArray_loop db et iDepth = (False, [])"
  by (subst IsPODArray_loop.simps) simp

lemma loop_last:
  "\<not> primitive_like db et \<Longrightarrow>
   IsPODArray_loop db et 1 = (False, [check_msg db 1 et])"
  by (subst IsPODArray_loop.simps) (simp add: primitive_like_def check_msg_def loop_not_positive)

lemma loop_not_ptr:
  "0 < iDepth \<Longrightarrow> \<not> primitive_like db et \<Longrightarrow> \<not> is_ptr db et \<Longrightarrow>
   IsPODArray_loop db et iDepth = (False, [check_msg db iDepth et])"
  by (subst IsPODArray_loop.simps)
     (auto simp: primitive_like_def check_msg_def loop_not_positive Let_def)

lemma loop_strip:
  "1 < iDepth \<Longrightarrow> \<not> primitive_like db et \<Longrightarrow> is_ptr db et \<Longrightarrow>
   IsPODArray_loop db et iDepth =
     emit (check_msg db iDepth et) (IsPODArray_loop db (remove_pointer db et) (iDepth - 1))"
  by (subst IsPODArray_loop.simps) (simp add: primitive_like_def check_msg_def)

lemma stripped_0: "stripped db et 0 = et"
  by (simp add: stripped_def)

lemma stripped_Suc: "stripped db et (Suc j) = stripped db (remove_pointer db et) j"
  by (simp add: stripped_def funpow_swap1)

text \<open>
  The checks of a run of the loop that starts with \<open>iDepth = n + 1\<close>: there are
  \<open>k + 1\<close> of them for some \<open>k \<le> n\<close>, on the element type after \<open>0, 1, \<dots>, k\<close>
  removals of a pointer, in this order; every type checked before the last is a
  pointer that is not primitive-like; the result says whether the last type checked
  is primitive-like; and when it is not, the budget is used up or the type is not
  a pointer.
\<close>

lemma loop_checks:
  "\<exists>k\<le>n.
     snd (IsPODArray_loop db et (int (Suc n)))
       = map (\<lambda>j. check_msg db (int (Suc n) - int j) (stripped db et j)) [0..<Suc k] \<and>
     (\<forall>j<k. \<not> primitive_like db (stripped db et j) \<and> is_ptr db (stripped db et j)) \<and>
     fst (IsPODArray_loop db et (int (Suc n))) = primitive_like db (stripped db et k) \<and>
     (\<not> primitive_like db (stripped db et k) \<longrightarrow> k = n \<or> \<not> is_ptr db (stripped db et k))"
proof (induction n arbitrary: et)
  case 0
  show ?case
    by (cases "primitive_like db et") (simp_all add: loop_primitive loop_last stripped_0)
next
  case (Suc n)
  consider (prim) "primitive_like db et"
    | (stop) "\<not> primitive_like db et" "\<not> is_ptr db et"
    | (strip) "\<not> primitive_like db et" "is_ptr db et"
    by blast
  then show ?case
  proof cases
    case prim
    then have "IsPODArray_loop db et (int (Suc (Suc n))) = (True, [check_msg db (int (Suc (Suc n))) et])"
      by (intro loop_primitive) simp_all
    with prim show ?thesis
      by (intro exI [of _ 0]) (simp add: stripped_0)
  next
    case stop
    then have "IsPODArray_loop db et (int (Suc (Suc n))) = (False, [check_msg db (int (Suc (Suc n))) et])"
      by (intro loop_not_ptr) simp_all
    with stop show ?thesis
      by (intro exI [of _ 0]) (simp add: stripped_0)
  next
    case strip
    let ?et = "remove_pointer db et"
    from Suc.IH [of ?et] obtain k where k: "k \<le> n"
      and msgs: "snd (IsPODArray_loop db ?et (int (Suc n)))
         = map (\<lambda>j. check_msg db (int (Suc n) - int j) (stripped db ?et j)) [0..<Suc k]"
      and before: "\<forall>j<k. \<not> primitive_like db (stripped db ?et j) \<and> is_ptr db (stripped db ?et j)"
      and res: "fst (IsPODArray_loop db ?et (int (Suc n))) = primitive_like db (stripped db ?et k)"
      and last: "\<not> primitive_like db (stripped db ?et k) \<longrightarrow> k = n \<or> \<not> is_ptr db (stripped db ?et k)"
      by blast
    have run: "IsPODArray_loop db et (int (Suc (Suc n))) =
        emit (check_msg db (int (Suc (Suc n))) et) (IsPODArray_loop db ?et (int (Suc n)))"
      using strip loop_strip [of "int (Suc (Suc n))" db et] by simp
    have shift: "map (\<lambda>j. check_msg db (int (Suc (Suc n)) - int j) (stripped db et j)) [0..<Suc (Suc k)]
        = check_msg db (int (Suc (Suc n))) et #
          map (\<lambda>j. check_msg db (int (Suc n) - int j) (stripped db ?et j)) [0..<Suc k]"
    proof -
      have "[0..<Suc (Suc k)] = 0 # map Suc [0..<Suc k]"
        by (simp only: upt_conv_Cons [of 0 "Suc (Suc k)"] map_Suc_upt)
      then show ?thesis
        by (simp add: stripped_0 stripped_Suc comp_def add_diff_eq del: upt_Suc)
    qed
    have m: "snd (IsPODArray_loop db et (int (Suc (Suc n))))
        = map (\<lambda>j. check_msg db (int (Suc (Suc n)) - int j) (stripped db et j)) [0..<Suc (Suc k)]"
      unfolding shift run using msgs
      by (cases "IsPODArray_loop db ?et (int (Suc n))") simp
    have b: "\<forall>j<Suc k. \<not> primitive_like db (stripped db et j) \<and> is_ptr db (stripped db et j)"
    proof (intro allI impI)
      fix j assume "j < Suc k"
      then show "\<not> primitive_like db (stripped db et j) \<and> is_ptr db (stripped db et j)"
        using strip before by (cases j) (simp_all add: stripped_0 stripped_Suc)
    qed
    have r: "fst (IsPODArray_loop db et (int (Suc (Suc n)))) = primitive_like db (stripped db et (Suc k))"
      unfolding run using res
      by (cases "IsPODArray_loop db ?et (int (Suc n))") (simp add: stripped_Suc)
    have l: "\<not> primitive_like db (stripped db et (Suc k)) \<longrightarrow>
        Suc k = Suc n \<or> \<not> is_ptr db (stripped db et (Suc k))"
      using last by (simp add: stripped_Suc)
    from k m b r l show ?thesis
      by (intro exI [of _ "Suc k"]) simp
  qed
qed

subsection \<open>The initial value of the counter\<close>

text \<open>
  \<^verbatim>\<open>int iDepth = ptrDepth + 1\<close> is \<open>ptrDepth + 1\<close> for a depth below \<open>2 ^ 31 - 1\<close>
  and is not positive from there on.
\<close>

lemma sint_small:
  fixes w :: "32 word"
  assumes "unat w < 2 ^ 31"
  shows "sint w = int (unat w)"
proof -
  have "int (unat w) < int (2 ^ 31)" using assms by (rule iffD2 [OF of_nat_less_iff])
  then have hi: "uint w < 2 ^ 31" by simp
  have "- (2 ^ 31) \<le> (0 :: int)" by simp
  also have "0 \<le> uint w" by simp
  finally have lo: "- (2 ^ 31) \<le> uint w" .
  have "signed_take_bit 31 (uint w) = uint w"
    using lo hi by (rule signed_take_bit_int_eq_self)
  then show ?thesis by (simp add: sint_uint)
qed

lemma sint_depth_in_range:
  fixes ptrDepth :: "32 word"
  assumes "unat ptrDepth < 2 ^ 31 - 1"
  shows "sint (ptrDepth + 1) = int (Suc (unat ptrDepth))"
proof -
  have u: "unat (ptrDepth + 1) = unat ptrDepth + 1"
    using assms by (simp add: unat_word_ariths)
  with assms have "unat (ptrDepth + 1) < 2 ^ 31" by simp
  from sint_small [OF this] u show ?thesis by simp
qed

lemma mod_shift_half:
  fixes x :: int
  assumes lo: "2147483648 \<le> x" and hi: "x < 4294967296"
  shows "(x + 2147483648) mod 4294967296 = x - 2147483648"
proof -
  have "x + 2147483648 = (x - 2147483648) + 4294967296" by simp
  then have "(x + 2147483648) mod 4294967296 = ((x - 2147483648) + 4294967296) mod 4294967296"
    by (simp only:)
  also have "\<dots> = (x - 2147483648) mod 4294967296" by (rule mod_add_self2)
  also have "\<dots> = x - 2147483648"
    by (rule mod_pos_pos_trivial) (use lo hi in simp_all)
  finally show ?thesis .
qed

lemma sint_big:
  fixes w :: "32 word"
  assumes "2 ^ 31 \<le> unat w"
  shows "sint w < 0"
proof -
  have "int (2 ^ 31) \<le> int (unat w)" using assms by (rule iffD2 [OF of_nat_le_iff])
  then have lo: "2147483648 \<le> uint w" by simp
  have hi: "uint w < 4294967296" using uint_bounded [of w] by simp
  have "sint w = take_bit 32 (uint w + 2 ^ 31) - 2 ^ 31"
    by (simp add: sint_uint signed_take_bit_eq_take_bit_shift)
  also have "take_bit 32 (uint w + 2 ^ 31) = (uint w + 2147483648) mod 4294967296"
    by (simp only: take_bit_eq_mod) simp
  also have "\<dots> = uint w - 2147483648"
    using lo hi by (rule mod_shift_half)
  finally show ?thesis using hi by simp
qed

lemma sint_depth_out_of_range:
  fixes ptrDepth :: "32 word"
  assumes "2 ^ 31 - 1 \<le> unat ptrDepth"
  shows "sint (ptrDepth + 1) \<le> 0"
proof (cases "ptrDepth = - 1")
  case True
  then show ?thesis by simp
next
  case False
  then have "1 + ptrDepth \<noteq> 0"
    by (metis add_eq_0_iff)
  then have "unat (1 + ptrDepth) = Suc (unat ptrDepth)"
    by (rule unatSuc)
  then have "unat (ptrDepth + 1) = unat ptrDepth + 1"
    by (simp add: add.commute)
  with assms have "2 ^ 31 \<le> unat (ptrDepth + 1)" by simp
  from sint_big [OF this] show ?thesis by simp
qed

subsection \<open>The pointer depth\<close>

text \<open>
  From the depth \<open>2 ^ 31 - 1\<close> on, the counter starts at a value that is not
  positive, the loop's body is never executed, and \<open>IsPODArray\<close> returns
  \<^verbatim>\<open>false\<close> without a check.
\<close>

lemma IsPODArray_no_check_out_of_range:
  assumes "is_array db tif" and "get_array_details db tif = Some atd"
    and "2 ^ 31 - 1 \<le> unat ptrDepth"
  shows "IsPODArray db tif ptrDepth = (False, [])"
  using assms by (simp add: IsPODArray_def loop_not_positive sint_depth_out_of_range)

text \<open>
  Claim C1, as stated: for every array type and every depth \<open>D\<close>, \<open>IsPODArray\<close>
  makes at most \<open>D + 1\<close> checks on the element type, returns \<^verbatim>\<open>true\<close> the first time
  the current type is primitive-like, and with \<open>D = 0\<close> makes exactly one check, on
  the element type itself.

  The claim fails on two inputs. For an array whose details cannot be read, the guard
  on \<^verbatim>\<open>get_array_details\<close> returns \<^verbatim>\<open>false\<close> at depth 0 before any check is made.
  For an array of 10 elements of a primitive-like type and the depth \<^verbatim>\<open>0xFFFFFFFF\<close>,
  \<^verbatim>\<open>ptrDepth + 1\<close> wraps to 0, no check is made and the result is \<^verbatim>\<open>false\<close> (the
  source's comment on this line expects the loop to execute at least once).
\<close>

theorem IsPODArray_claim_fails:
  "is_array tinfo_db BadArr \<and>
   IsPODArray tinfo_db BadArr 0 = (False, [E_array BadArr]) \<and>
   is_array tinfo_db (Arr (Leaf True True) 10) \<and>
   get_array_details tinfo_db (Arr (Leaf True True) 10)
     = Some \<lparr>elem_type = Leaf True True, nelems = 10\<rparr> \<and>
   primitive_like tinfo_db (Leaf True True) \<and>
   IsPODArray tinfo_db (Arr (Leaf True True) 10) 0xFFFFFFFF = (False, [])"
  by (simp add: IsPODArray_def tinfo_db_def primitive_like_def loop_not_positive)

text \<open>
  Claim C1, amended: for every array type whose array details can be read and every
  depth \<open>D\<close> below \<open>2 ^ 31 - 1\<close>, \<open>IsPODArray\<close> makes \<open>k + 1\<close> checks for some
  \<open>k \<le> D\<close>, hence at most \<open>D + 1\<close>, on the element type after \<open>0, 1, \<dots>, k\<close>
  removals of a pointer, in this order. Every type checked before the last is a
  pointer that is not primitive-like, and the result says whether the last type checked
  is primitive-like: \<open>IsPODArray\<close> returns \<^verbatim>\<open>true\<close> the first time the current type
  is primitive-like, and when it returns \<^verbatim>\<open>false\<close> the budget is used up
  (\<open>k = D\<close>) or the current type is neither primitive-like nor a pointer. With
  \<open>D = 0\<close> there is exactly one check, on the element type itself.
\<close>

theorem IsPODArray_checks:
  assumes "is_array db tif" and "get_array_details db tif = Some atd"
    and "unat ptrDepth < 2 ^ 31 - 1"
  shows "(\<exists>k\<le>unat ptrDepth.
     snd (IsPODArray db tif ptrDepth)
       = map (\<lambda>j. check_msg db (int (unat ptrDepth) + 1 - int j) (stripped db (elem_type atd) j))
           [0..<Suc k] \<and>
     (\<forall>j<k. \<not> primitive_like db (stripped db (elem_type atd) j) \<and>
        is_ptr db (stripped db (elem_type atd) j)) \<and>
     fst (IsPODArray db tif ptrDepth) = primitive_like db (stripped db (elem_type atd) k) \<and>
     (\<not> primitive_like db (stripped db (elem_type atd) k) \<longrightarrow>
        k = unat ptrDepth \<or> \<not> is_ptr db (stripped db (elem_type atd) k))) \<and>
   length (snd (IsPODArray db tif ptrDepth)) \<le> unat ptrDepth + 1 \<and>
   (ptrDepth = 0 \<longrightarrow>
      IsPODArray db tif ptrDepth
        = (primitive_like db (elem_type atd), [check_msg db 1 (elem_type atd)]))"
proof -
  let ?e = "elem_type atd"
  have run: "IsPODArray db tif ptrDepth = IsPODArray_loop db ?e (int (Suc (unat ptrDepth)))"
    using assms by (simp add: IsPODArray_def sint_depth_in_range)
  from loop_checks [of "unat ptrDepth" db ?e] obtain k where k: "k \<le> unat ptrDepth"
    and msgs: "snd (IsPODArray_loop db ?e (int (Suc (unat ptrDepth))))
       = map (\<lambda>j. check_msg db (int (Suc (unat ptrDepth)) - int j) (stripped db ?e j)) [0..<Suc k]"
    and before: "\<forall>j<k. \<not> primitive_like db (stripped db ?e j) \<and> is_ptr db (stripped db ?e j)"
    and res: "fst (IsPODArray_loop db ?e (int (Suc (unat ptrDepth))))
       = primitive_like db (stripped db ?e k)"
    and last: "\<not> primitive_like db (stripped db ?e k) \<longrightarrow>
       k = unat ptrDepth \<or> \<not> is_ptr db (stripped db ?e k)"
    by blast
  have idx: "int (Suc (unat ptrDepth)) = int (unat ptrDepth) + 1" by simp
  have m: "snd (IsPODArray db tif ptrDepth)
       = map (\<lambda>j. check_msg db (int (unat ptrDepth) + 1 - int j) (stripped db ?e j)) [0..<Suc k]"
    using msgs by (simp only: run idx)
  have r: "fst (IsPODArray db tif ptrDepth) = primitive_like db (stripped db ?e k)"
    unfolding run by (rule res)
  have len: "length (snd (IsPODArray db tif ptrDepth)) \<le> unat ptrDepth + 1"
    unfolding m using k by simp
  have zero: "IsPODArray db tif ptrDepth = (primitive_like db ?e, [check_msg db 1 ?e])"
    if "ptrDepth = 0"
  proof -
    from that k have "k = 0" by simp
    with m r that have "snd (IsPODArray db tif ptrDepth) = [check_msg db 1 ?e]"
      and "fst (IsPODArray db tif ptrDepth) = primitive_like db ?e"
      by (simp_all add: stripped_0)
    then show ?thesis by (cases "IsPODArray db tif ptrDepth") simp
  qed
  from k m before r last len zero show ?thesis by blast
qed

theorem IsPODArray_checks_witness:
  "is_array tinfo_db (Arr (Ptr (Leaf True True)) 10) \<and>
   get_array_details tinfo_db (Arr (Ptr (Leaf True True)) 10)
     = Some \<lparr>elem_type = Ptr (Leaf True True), nelems = 10\<rparr> \<and>
   unat (1 :: uint) < 2 ^ 31 - 1 \<and>
   length (snd (IsPODArray tinfo_db (Arr (Ptr (Leaf True True)) 10) 1)) \<le> unat (1 :: uint) + 1 \<and>
   IsPODArray tinfo_db (Arr (Ptr (Leaf True True)) 10) 1
     = (True, [I_IsPodArray 2 (Ptr (Leaf True True)) False False,
               I_IsPodArray 1 (Leaf True True) True True]) \<and>
   unat (0 :: uint) < 2 ^ 31 - 1 \<and>
   IsPODArray tinfo_db (Arr (Ptr (Leaf True True)) 10) 0
     = (False, [I_IsPodArray 1 (Ptr (Leaf True True)) False False])"
  using IsPODArray_checks [of tinfo_db "Arr (Ptr (Leaf True True)) 10"
      "\<lparr>elem_type = Ptr (Leaf True True), nelems = 10\<rparr>" 1]
    IsPODArray_checks [of tinfo_db "Arr (Ptr (Leaf True True)) 10"
      "\<lparr>elem_type = Ptr (Leaf True True), nelems = 10\<rparr>" 0]
  by (simp add: tinfo_db_def IsPODArray_def IsPODArray_loop.simps primitive_like_def
      check_msg_def)

text \<open>
  Claim C5: the test of a type computes both classifications (both are printed), and
  the type counts as primitive-like when either of them holds: the loop then returns
  \<^verbatim>\<open>true\<close> at this type. When neither holds, the loop does not return \<^verbatim>\<open>true\<close>
  at this type: it returns \<^verbatim>\<open>false\<close> if this was the last check of the budget or
  the type is not a pointer. For \<open>IsPODArray\<close> itself, on an array whose details can
  be read and with a depth below \<open>2 ^ 31 - 1\<close>: an element type on which one of the
  two classifications holds makes it return \<^verbatim>\<open>true\<close> after one check.
\<close>

theorem IsPODArray_either_classifier:
  "(0 < iDepth \<and> (is_typeid_last db (get_realtype db et) \<or> is_decl_last db et) \<longrightarrow>
      IsPODArray_loop db et iDepth =
        (True, [I_IsPodArray iDepth et (is_typeid_last db (get_realtype db et))
                  (is_decl_last db et)])) \<and>
   (0 < iDepth \<and> \<not> is_typeid_last db (get_realtype db et) \<and> \<not> is_decl_last db et \<and>
    (iDepth = 1 \<or> \<not> is_ptr db et) \<longrightarrow>
      IsPODArray_loop db et iDepth = (False, [I_IsPodArray iDepth et False False])) \<and>
   (is_array db tif \<and> get_array_details db tif = Some atd \<and> unat ptrDepth < 2 ^ 31 - 1 \<and>
    (is_typeid_last db (get_realtype db (elem_type atd)) \<or> is_decl_last db (elem_type atd)) \<longrightarrow>
      IsPODArray db tif ptrDepth =
        (True, [I_IsPodArray (int (unat ptrDepth) + 1) (elem_type atd)
                  (is_typeid_last db (get_realtype db (elem_type atd)))
                  (is_decl_last db (elem_type atd))]))"
proof (intro conjI impI)
  assume "0 < iDepth \<and> (is_typeid_last db (get_realtype db et) \<or> is_decl_last db et)"
  then show "IsPODArray_loop db et iDepth =
        (True, [I_IsPodArray iDepth et (is_typeid_last db (get_realtype db et))
                  (is_decl_last db et)])"
    using loop_primitive [of iDepth db et] by (simp add: primitive_like_def check_msg_def)
next
  assume a: "0 < iDepth \<and> \<not> is_typeid_last db (get_realtype db et) \<and> \<not> is_decl_last db et \<and>
    (iDepth = 1 \<or> \<not> is_ptr db et)"
  then have np: "\<not> primitive_like db et" by (simp add: primitive_like_def)
  from a have "iDepth = 1 \<or> \<not> is_ptr db et" by simp
  then show "IsPODArray_loop db et iDepth = (False, [I_IsPodArray iDepth et False False])"
  proof
    assume "iDepth = 1"
    with loop_last [OF np] a show ?thesis by (simp add: check_msg_def)
  next
    assume "\<not> is_ptr db et"
    with loop_not_ptr [of iDepth db et] np a show ?thesis by (simp add: check_msg_def)
  qed
next
  assume a: "is_array db tif \<and> get_array_details db tif = Some atd \<and> unat ptrDepth < 2 ^ 31 - 1 \<and>
    (is_typeid_last db (get_realtype db (elem_type atd)) \<or> is_decl_last db (elem_type atd))"
  then have "IsPODArray db tif ptrDepth = IsPODArray_loop db (elem_type atd) (int (Suc (unat ptrDepth)))"
    by (simp add: IsPODArray_def sint_depth_in_range)
  moreover have "primitive_like db (elem_type atd)" using a by (simp add: primitive_like_def)
  moreover have "0 < int (Suc (unat ptrDepth))"
    by (simp only: of_nat_0_less_iff zero_less_Suc)
  ultimately have "IsPODArray db tif ptrDepth =
      (True, [check_msg db (int (Suc (unat ptrDepth))) (elem_type atd)])"
    by (simp only: loop_primitive)
  moreover have "int (Suc (unat ptrDepth)) = int (unat ptrDepth) + 1" by simp
  ultimately show "IsPODArray db tif ptrDepth =
        (True, [I_IsPodArray (int (unat ptrDepth) + 1) (elem_type atd)
                  (is_typeid_last db (get_realtype db (elem_type atd)))
                  (is_decl_last db (elem_type atd))])"
    by (simp only: check_msg_def)
qed

theorem IsPODArray_either_classifier_witness:
  "(0 :: int) < 1 \<and>
   is_typeid_last tinfo_db (get_realtype tinfo_db (Leaf True False)) \<and>
   \<not> is_decl_last tinfo_db (Leaf True False) \<and>
   IsPODArray_loop tinfo_db (Leaf True False) 1
     = (True, [I_IsPodArray 1 (Leaf True False) True False]) \<and>
   \<not> is_typeid_last tinfo_db (get_realtype tinfo_db (Leaf False True)) \<and>
   is_decl_last tinfo_db (Leaf False True) \<and>
   IsPODArray_loop tinfo_db (Leaf False True) 1
     = (True, [I_IsPodArray 1 (Leaf False True) False True]) \<and>
   \<not> is_typeid_last tinfo_db (get_realtype tinfo_db (Leaf False False)) \<and>
   \<not> is_decl_last tinfo_db (Leaf False False) \<and>
   IsPODArray_loop tinfo_db (Leaf False False) 1
     = (False, [I_IsPodArray 1 (Leaf False False) False False]) \<and>
   is_array tinfo_db (Arr (Leaf False True) 10) \<and>
   get_array_details tinfo_db (Arr (Leaf False True) 10)
     = Some \<lparr>elem_type = Leaf False True, nelems = 10\<rparr> \<and>
   unat (0 :: uint) < 2 ^ 31 - 1 \<and>
   IsPODArray tinfo_db (Arr (Leaf False True) 10) 0
     = (True, [I_IsPodArray 1 (Leaf False True) False True])"
  using IsPODArray_either_classifier [where iDepth = 1 and db = tinfo_db
      and et = "Leaf True False" and tif = "Arr (Leaf False True) 10"
      and atd = "\<lparr>elem_type = Leaf False True, nelems = 10\<rparr>" and ptrDepth = 0]
    IsPODArray_either_classifier [where iDepth = 1 and db = tinfo_db
      and et = "Leaf False True" and tif = "Arr (Leaf False True) 10"
      and atd = "\<lparr>elem_type = Leaf False True, nelems = 10\<rparr>" and ptrDepth = 0]
    IsPODArray_either_classifier [where iDepth = 1 and db = tinfo_db
      and et = "Leaf False False" and tif = "Arr (Leaf False True) 10"
      and atd = "\<lparr>elem_type = Leaf False True, nelems = 10\<rparr>" and ptrDepth = 0]
  by (simp add: tinfo_db_def)

section \<open>Properties of applyAllTypesForInterfaces\<close>

text \<open>The service tables of the two retypers are the same after the loop as before it.\<close>

lemma handle_protocol_services:
  "handle_protocol h p (rBs, rSmm, st) = (rBs', rSmm', st') \<Longrightarrow>
   services rBs' = services rBs \<and> services rSmm' = services rSmm"
  by (auto simp: handle_protocol_def Let_def SetCodeEa_def SetFuncEa_def
           split: option.splits prod.splits)

lemma handle_protocols_services:
  "handle_protocols h ps (rBs, rSmm, st) = (rBs', rSmm', st') \<Longrightarrow>
   services rBs' = services rBs \<and> services rSmm' = services rSmm"
proof (induction ps arbitrary: rBs rSmm st)
  case Nil
  then show ?case by simp
next
  case (Cons p ps)
  obtain a b c where step: "handle_protocol h p (rBs, rSmm, st) = (a, b, c)"
    by (cases "handle_protocol h p (rBs, rSmm, st)") auto
  with Cons.prems have "handle_protocols h ps (a, b, c) = (rBs', rSmm', st')" by simp
  from Cons.IH [OF this] handle_protocol_services [OF step] show ?case by simp
qed

lemma applyAll_services:
  "services (fst (applyAllTypesForInterfaces h ps st)) = mBs \<and>
   services (fst (snd (applyAllTypesForInterfaces h ps st))) = mSmm"
proof -
  obtain a b c where r: "applyAllTypesForInterfaces h ps st = (a, b, c)"
    by (cases "applyAllTypesForInterfaces h ps st") auto
  then have "handle_protocols h ps
      (SetProtocols ps (new_GUIDRetyper mBs), SetProtocols ps (new_GUIDRetyper mSmm), st) = (a, b, c)"
    by (simp add: applyAllTypesForInterfaces_def Let_def)
  from handle_protocols_services [OF this] r show ?thesis
    by (simp add: SetProtocols_def new_GUIDRetyper_def)
qed

text \<open>
  Claim C4: the registries of the driver hold the table built from the three boot
  services descriptors and the table built from the two management-mode descriptors,
  every one of these five descriptors has the index of its GUID argument and the
  index of its interface argument below its number of arguments, and whatever the
  driver processes, the tables of its two retypers are at the end the tables that
  were registered.
\<close>

theorem catalog_wellformed:
  "ran mBs = {sdBs} \<and> ran mSmm = {sdSmm} \<and>
   entries sdBs = BootServicesFunctions \<and> entries sdSmm = SmmServicesFunctions \<and>
   (\<forall>d \<in> set (BootServicesFunctions @ SmmServicesFunctions).
      guidArgIndex d < argCount d \<and> interfaceArgIndex d < argCount d) \<and>
   services (fst (applyAllTypesForInterfaces h ps st)) = mBs \<and>
   services (fst (snd (applyAllTypesForInterfaces h ps st))) = mSmm"
proof -
  have "ran mBs = {sdBs}" "ran mSmm = {sdSmm}"
    by (simp_all add: mBs_def mSmm_def Register_def)
  moreover have "entries sdBs = BootServicesFunctions" "entries sdSmm = SmmServicesFunctions"
    by (simp_all add: sdBs_def sdSmm_def Initialize_def BootServicesFunctions_def
        SmmServicesFunctions_def)
  moreover have "\<forall>d \<in> set (BootServicesFunctions @ SmmServicesFunctions).
      guidArgIndex d < argCount d \<and> interfaceArgIndex d < argCount d"
    by (simp add: BootServicesFunctions_def SmmServicesFunctions_def)
  ultimately show ?thesis using applyAll_services [of h ps st] by simp
qed

theorem catalog_wellformed_witness:
  "\<lparr>fn_name = ''OpenProtocol'', tableOffset = 0x118, argCount = 6,
     guidArgIndex = 1, interfaceArgIndex = 2\<rparr>
     \<in> set (BootServicesFunctions @ SmmServicesFunctions) \<and>
   guidArgIndex \<lparr>fn_name = ''OpenProtocol'', tableOffset = 0x118, argCount = 6,
     guidArgIndex = 1, interfaceArgIndex = 2\<rparr>
     < argCount \<lparr>fn_name = ''OpenProtocol'', tableOffset = 0x118, argCount = 6,
     guidArgIndex = 1, interfaceArgIndex = 2\<rparr> \<and>
   interfaceArgIndex \<lparr>fn_name = ''OpenProtocol'', tableOffset = 0x118, argCount = 6,
     guidArgIndex = 1, interfaceArgIndex = 2\<rparr>
     < argCount \<lparr>fn_name = ''OpenProtocol'', tableOffset = 0x118, argCount = 6,
     guidArgIndex = 1, interfaceArgIndex = 2\<rparr> \<and>
   services (fst (applyAllTypesForInterfaces sample_host
      [\<lparr>ea = 0x3010, service = ''OpenProtocol''\<rparr>] [])) = mBs"
  using catalog_wellformed [of sample_host "[\<lparr>ea = 0x3010, service = ''OpenProtocol''\<rparr>]" "[]"]
  by (simp add: BootServicesFunctions_def)





end
